theory Spec2Isabelle
  imports Main "HOL-Library.Word"
begin

unbundle bit_operations_syntax

section \<open>The MMIO socket device (hw/misc/mmio\_sockdev.c)\<close>

text \<open>
  The device proxies every guest access to its 4 KiB MMIO window to an external peer over a
  character backend:
  \<^item> read: \<open>'R'\<close> (1 byte), address (4 bytes, little-endian), size (1 byte); the peer answers
    with \<open>size\<close> bytes;
  \<^item> write: \<open>'W'\<close> (1 byte), address (4 bytes, little-endian), size (1 byte), data
    (\<open>size\<close> bytes); no answer.

  The embedding follows the C text statement by statement. C objects are modelled as follows.
  \<^item> \<open>uint8_t\<close>, \<open>uint16_t\<close>, \<open>uint32_t\<close>/\<open>unsigned\<close>, \<open>uint64_t\<close>/\<open>hwaddr\<close> are words of
    that width; \<open>int\<close> is a 32-bit word read in two's complement (\<open>sint\<close>). A conversion to a
    wider unsigned type is \<open>ucast\<close> from an unsigned source and \<open>scast\<close> (sign extension)
    from an \<open>int\<close>; a conversion to a narrower type is \<open>ucast\<close> (truncation).
  \<^item> A byte array is a function from the index to the byte. The arrays of the device are
    local and only indexed by constants below their size, except for \<open>buf\<close>, which the
    character backend fills: there the size of the array is checked by the model.
  \<^item> The calls the device makes on its environment (mutex, character backend, diagnostics)
    are recorded, in program order, in a trace that is part of the state.
\<close>

type_synonym u8 = "8 word"
type_synonym u16 = "16 word"
type_synonym u32 = "32 word"
type_synonym u64 = "64 word"
type_synonym hwaddr = "64 word"
type_synonym c_int = "32 word"
type_synonym buffer = "nat \<Rightarrow> u8"

subsection \<open>State\<close>

datatype QemuMutex = Uninitialized | Unlocked | Locked

datatype event =
    MutexLock
  | MutexUnlock
  | ChrWriteAll "u8 list"
  | ChrReadAll c_int
  | ErrorReport string "u32 list"

record MemoryRegion =
  mr_name :: string
  mr_size :: u64

text \<open>
  \<open>SysBusDevice parent_obj\<close>: the MMIO regions the device has handed to the system bus, each
  with the address it is mapped at, if any.
\<close>

record SysBusDevice =
  sysbus_mmio :: "(MemoryRegion \<times> hwaddr option) list"

record 'c MMIOSockDevState =
  parent_obj :: SysBusDevice
  mmio :: "MemoryRegion option"
  chr :: 'c
  base_addr :: u64
  lock :: QemuMutex
  trace :: "event list"

text \<open>
  What does not let a call return to the guest: \<open>qemu_mutex_lock\<close> on a mutex that is held
  never returns in a sequential run, QEMU aborts on a mutex that was never initialised, and
  more bytes stored into a local array than it holds are undefined behaviour in C.
\<close>

datatype fault = Deadlock | Mutex_Uninitialized | Buffer_Overrun

subsection \<open>The environment: character backend, mutex, diagnostics\<close>

text \<open>
  The character backend is not part of the device. Its behaviour is a parameter of the model:
  \<open>be_write_all c bs\<close> is handed the bytes \<open>bs\<close> and answers with the \<open>int\<close> that
  \<open>qemu_chr_fe_write_all\<close> returns (the number of bytes written, or a negative error) and the
  backend's next state; \<open>be_read_all c len\<close> answers with the \<open>int\<close> that
  \<open>qemu_chr_fe_read_all\<close> returns and the bytes it delivers; \<open>be_connected\<close> is
  \<open>qemu_chr_fe_backend_connected\<close>.
\<close>

record 'c CharBackend =
  be_write_all :: "'c \<Rightarrow> u8 list \<Rightarrow> c_int \<times> 'c"
  be_read_all :: "'c \<Rightarrow> c_int \<Rightarrow> (c_int \<times> u8 list) \<times> 'c"
  be_connected :: "'c \<Rightarrow> bool"

definition qemu_mutex_lock :: "'c MMIOSockDevState \<Rightarrow> fault + 'c MMIOSockDevState" where
  "qemu_mutex_lock s =
     (case lock s of
        Uninitialized \<Rightarrow> Inl Mutex_Uninitialized
      | Locked \<Rightarrow> Inl Deadlock
      | Unlocked \<Rightarrow> Inr (s\<lparr>lock := Locked, trace := trace s @ [MutexLock]\<rparr>))"

definition qemu_mutex_unlock :: "'c MMIOSockDevState \<Rightarrow> 'c MMIOSockDevState" where
  "qemu_mutex_unlock s = s\<lparr>lock := Unlocked, trace := trace s @ [MutexUnlock]\<rparr>"

definition error_report :: "string \<Rightarrow> u32 list \<Rightarrow> 'c MMIOSockDevState \<Rightarrow> 'c MMIOSockDevState" where
  "error_report fmt args s = s\<lparr>trace := trace s @ [ErrorReport fmt args]\<rparr>"

text \<open>
  \<open>qemu_chr_fe_write_all(&s->chr, buf, len)\<close>: the first \<open>len\<close> bytes of \<open>buf\<close> are handed to
  the backend.
\<close>

definition qemu_chr_fe_write_all ::
  "'c CharBackend \<Rightarrow> 'c MMIOSockDevState \<Rightarrow> buffer \<Rightarrow> c_int \<Rightarrow> c_int \<times> 'c MMIOSockDevState" where
  "qemu_chr_fe_write_all be s buf len =
     (let bs = map buf [0..<nat (sint len)];
          (ret, c') = be_write_all be (chr s) bs
      in (ret, s\<lparr>chr := c', trace := trace s @ [ChrWriteAll bs]\<rparr>))"

text \<open>
  \<open>qemu_chr_fe_read_all(&s->chr, buf, len)\<close> stores what the backend delivers, at most \<open>len\<close>
  bytes, from \<open>buf[0]\<close> on. \<open>cap\<close> is the declared size of the array behind \<open>buf\<close>: storing
  more than that is the fault \<open>Buffer_Overrun\<close>.
\<close>

definition qemu_chr_fe_read_all ::
  "'c CharBackend \<Rightarrow> 'c MMIOSockDevState \<Rightarrow> buffer \<Rightarrow> nat \<Rightarrow> c_int
     \<Rightarrow> fault + (c_int \<times> buffer \<times> 'c MMIOSockDevState)" where
  "qemu_chr_fe_read_all be s buf cap len =
     (let ((ret, data), c') = be_read_all be (chr s) len;
          stored = take (nat (sint len)) data;
          s' = s\<lparr>chr := c', trace := trace s @ [ChrReadAll len]\<rparr>
      in if cap < length stored then Inl Buffer_Overrun
         else Inr (ret, (\<lambda>i. if i < length stored then stored ! i else buf i), s'))"

subsection \<open>Little-endian loads and stores (qemu/bswap.h)\<close>

text \<open>
  \<open>stw_le_p\<close> and \<open>stl_le_p\<close> store a 16-bit and a 32-bit value at a byte pointer, least
  significant byte first. \<open>lduw_le_p\<close> and \<open>ldl_le_p\<close> load one; both are declared to return
  \<open>int\<close>: \<open>lduw_le_p\<close> the 16-bit value zero-extended, \<open>ldl_le_p\<close> the 32 bits as they are,
  so that its result is negative when bit 31 is set. The pointer \<open>p + i\<close> is the pair of the
  array and the index.
\<close>

definition stw_le_p :: "buffer \<Rightarrow> nat \<Rightarrow> u16 \<Rightarrow> buffer" where
  "stw_le_p p i v = p(i := ucast v, i + 1 := ucast (drop_bit 8 v))"

definition stl_le_p :: "buffer \<Rightarrow> nat \<Rightarrow> u32 \<Rightarrow> buffer" where
  "stl_le_p p i v =
     p(i := ucast v, i + 1 := ucast (drop_bit 8 v),
       i + 2 := ucast (drop_bit 16 v), i + 3 := ucast (drop_bit 24 v))"

definition lduw_le_p :: "buffer \<Rightarrow> nat \<Rightarrow> c_int" where
  "lduw_le_p p i = ucast (p i) OR push_bit 8 (ucast (p (i + 1)))"

definition ldl_le_p :: "buffer \<Rightarrow> nat \<Rightarrow> c_int" where
  "ldl_le_p p i =
     ucast (p i) OR push_bit 8 (ucast (p (i + 1)))
       OR push_bit 16 (ucast (p (i + 2))) OR push_bit 24 (ucast (p (i + 3)))"

subsection \<open>mmio\_sockdev\_read\<close>

text \<open>
  Lines 40 and 47-49: \<open>uint8_t req[6] = { 'R' }\<close>, then the address and the size.
\<close>

definition read_req :: "hwaddr \<Rightarrow> u32 \<Rightarrow> buffer" where
  "read_req offset sz =
     (let req = (\<lambda>_. 0)(0 := 0x52);
          req = stl_le_p req 1 (ucast offset);
          req = req(5 := ucast sz)
      in req)"

text \<open>
  Lines 66-79: the conversion of the response. In the default branch \<open>value\<close> keeps its
  initial 0 and the size is reported.
\<close>

definition read_convert ::
  "u32 \<Rightarrow> buffer \<Rightarrow> 'c MMIOSockDevState \<Rightarrow> u64 \<times> 'c MMIOSockDevState" where
  "read_convert sz buf s =
     (if sz = 1 then (ucast (buf 0), s)
      else if sz = 2 then (scast (lduw_le_p buf 0), s)
      else if sz = 4 then (scast (ldl_le_p buf 0), s)
      else (0, error_report ''mmio-sockdev: invalid read size %u'' [sz] s))"

definition mmio_sockdev_read ::
  "'c CharBackend \<Rightarrow> 'c MMIOSockDevState \<Rightarrow> hwaddr \<Rightarrow> u32
     \<Rightarrow> fault + (u64 \<times> 'c MMIOSockDevState)" where
  "mmio_sockdev_read be s offset sz =
     (let value = 0;
          buf = (\<lambda>_. 0)
      in case qemu_mutex_lock s of
           Inl f \<Rightarrow> Inl f
         | Inr s1 \<Rightarrow>
             let req = read_req offset sz;
                 (ret, s2) = qemu_chr_fe_write_all be s1 req 6
             in if (scast ret :: u64) \<noteq> 6 then
                  Inr (value,
                    qemu_mutex_unlock
                      (error_report ''mmio-sockdev: failed to send read request'' [] s2))
                else
                  (case qemu_chr_fe_read_all be s2 buf 8 sz of
                     Inl f \<Rightarrow> Inl f
                   | Inr (ret, buf', s3) \<Rightarrow>
                       if ret \<noteq> sz then
                         Inr (value,
                           qemu_mutex_unlock
                             (error_report ''mmio-sockdev: failed to read response'' [] s3))
                       else
                         (let (value', s4) = read_convert sz buf' s3
                          in Inr (value', qemu_mutex_unlock s4))))"

subsection \<open>mmio\_sockdev\_write\<close>

text \<open>
  \<open>uint8_t req[14]\<close> is not initialised: its content at entry, \<open>req0\<close>, is arbitrary.
  Lines 95-98 store the opcode, the address and the size.
\<close>

definition write_req_header :: "buffer \<Rightarrow> hwaddr \<Rightarrow> u32 \<Rightarrow> buffer" where
  "write_req_header req0 offset sz =
     (let req = req0(0 := 0x57);
          req = stl_le_p req 1 (ucast offset);
          req = req(5 := ucast sz)
      in req)"

text \<open>Lines 100-114: the data; \<open>None\<close> is the default branch, which leaves by \<open>goto unlock\<close>.\<close>

definition write_req_data :: "buffer \<Rightarrow> u64 \<Rightarrow> u32 \<Rightarrow> buffer option" where
  "write_req_data req value sz =
     (if sz = 1 then Some (req(6 := ucast value))
      else if sz = 2 then Some (stw_le_p req 6 (ucast value))
      else if sz = 4 then Some (stl_le_p req 6 (ucast value))
      else None)"

definition mmio_sockdev_write ::
  "'c CharBackend \<Rightarrow> buffer \<Rightarrow> 'c MMIOSockDevState \<Rightarrow> hwaddr \<Rightarrow> u64 \<Rightarrow> u32
     \<Rightarrow> fault + 'c MMIOSockDevState" where
  "mmio_sockdev_write be req0 s offset value sz =
     (let packet_size = (6 + sz :: c_int)
      in case qemu_mutex_lock s of
           Inl f \<Rightarrow> Inl f
         | Inr s1 \<Rightarrow>
             (case write_req_data (write_req_header req0 offset sz) value sz of
                None \<Rightarrow>
                  Inr (qemu_mutex_unlock
                    (error_report ''mmio-sockdev: invalid write size %u'' [sz] s1))
              | Some req \<Rightarrow>
                  let (ret, s2) = qemu_chr_fe_write_all be s1 req packet_size;
                      s3 = (if ret \<noteq> packet_size
                            then error_report ''mmio-sockdev: failed to send write request'' [] s2
                            else s2)
                  in Inr (qemu_mutex_unlock s3)))"

subsection \<open>mmio\_sockdev\_ops\<close>

text \<open>
  The constants of \<open>mmio_sockdev_ops\<close> (lines 126-134): the byte order of the region and the
  range of access sizes it declares valid. The two handlers are the functions above.
\<close>

datatype device_endian = DEVICE_NATIVE_ENDIAN | DEVICE_BIG_ENDIAN | DEVICE_LITTLE_ENDIAN

record MemoryRegionOps =
  endianness :: device_endian
  valid_min_access_size :: u32
  valid_max_access_size :: u32

definition mmio_sockdev_ops :: MemoryRegionOps where
  "mmio_sockdev_ops =
     \<lparr>endianness = DEVICE_LITTLE_ENDIAN, valid_min_access_size = 1, valid_max_access_size = 4\<rparr>"

subsection \<open>mmio\_sockdev\_realize\<close>

text \<open>
  \<open>errp\<close> is the first component of the result: \<open>Some\<close> the message that \<open>error_setg\<close> stores.
  \<open>memory_region_init_io\<close> sets up the region of \<open>0x1000\<close> bytes, \<open>sysbus_init_mmio\<close> hands
  it to the bus as region 0, and \<open>sysbus_mmio_map\<close> maps region 0 when a base address is set.
\<close>

definition qemu_mutex_init :: "'c MMIOSockDevState \<Rightarrow> 'c MMIOSockDevState" where
  "qemu_mutex_init s = s\<lparr>lock := Unlocked\<rparr>"

definition memory_region_init_io ::
  "string \<Rightarrow> u64 \<Rightarrow> 'c MMIOSockDevState \<Rightarrow> 'c MMIOSockDevState" where
  "memory_region_init_io name sz s = s\<lparr>mmio := Some \<lparr>mr_name = name, mr_size = sz\<rparr>\<rparr>"

definition sysbus_init_mmio :: "'c MMIOSockDevState \<Rightarrow> 'c MMIOSockDevState" where
  "sysbus_init_mmio s =
     (case mmio s of
        None \<Rightarrow> s
      | Some mr \<Rightarrow>
          s\<lparr>parent_obj := (parent_obj s)\<lparr>sysbus_mmio := sysbus_mmio (parent_obj s) @ [(mr, None)]\<rparr>\<rparr>)"

definition sysbus_mmio_map :: "nat \<Rightarrow> hwaddr \<Rightarrow> 'c MMIOSockDevState \<Rightarrow> 'c MMIOSockDevState" where
  "sysbus_mmio_map n addr s =
     (let rs = sysbus_mmio (parent_obj s)
      in if n < length rs
         then s\<lparr>parent_obj := (parent_obj s)\<lparr>sysbus_mmio := rs[n := (fst (rs ! n), Some addr)]\<rparr>\<rparr>
         else s)"

definition mmio_sockdev_realize ::
  "'c CharBackend \<Rightarrow> 'c MMIOSockDevState \<Rightarrow> string option \<times> 'c MMIOSockDevState" where
  "mmio_sockdev_realize be s =
     (if \<not> be_connected be (chr s) then (Some ''mmio-sockdev: chardev not connected'', s)
      else
        let s1 = qemu_mutex_init s;
            s2 = memory_region_init_io ''mmio-sockdev'' 0x1000 s1;
            s3 = sysbus_init_mmio s2;
            s4 = (if base_addr s \<noteq> 0 then sysbus_mmio_map 0 (base_addr s) s3 else s3)
        in (None, s4))"

definition mmio_sockdev_unrealize :: "'c MMIOSockDevState \<Rightarrow> 'c MMIOSockDevState" where
  "mmio_sockdev_unrealize s = s\<lparr>lock := Uninitialized\<rparr>"

subsection \<open>Reading a trace\<close>

text \<open>
  The payloads of the backend writes of a trace, the lengths of its backend reads and its
  diagnostics, each in program order.
\<close>

fun chr_writes :: "event list \<Rightarrow> u8 list list" where
  "chr_writes [] = []"
| "chr_writes (ChrWriteAll bs # es) = bs # chr_writes es"
| "chr_writes (e # es) = chr_writes es"

fun chr_reads :: "event list \<Rightarrow> c_int list" where
  "chr_reads [] = []"
| "chr_reads (ChrReadAll n # es) = n # chr_reads es"
| "chr_reads (e # es) = chr_reads es"

fun error_reports :: "event list \<Rightarrow> (string \<times> u32 list) list" where
  "error_reports [] = []"
| "error_reports (ErrorReport fmt args # es) = (fmt, args) # error_reports es"
| "error_reports (e # es) = error_reports es"

subsection \<open>The wire format in the words of the protocol\<close>

text \<open>
  \<open>le_bytes n v\<close>: the value \<open>v\<close> truncated to \<open>n\<close> bytes, least significant byte first.
\<close>

definition le_bytes :: "nat \<Rightarrow> u64 \<Rightarrow> u8 list" where
  "le_bytes n v = map (\<lambda>i. ucast (drop_bit (8 * i) v)) [0..<n]"

definition read_request_bytes :: "hwaddr \<Rightarrow> u32 \<Rightarrow> u8 list" where
  "read_request_bytes offset sz = [0x52] @ le_bytes 4 offset @ [ucast sz]"

definition write_request_bytes :: "hwaddr \<Rightarrow> u32 \<Rightarrow> u64 \<Rightarrow> u8 list" where
  "write_request_bytes offset sz value =
     [0x57] @ le_bytes 4 offset @ [ucast sz] @ le_bytes (unat sz) value"

subsection \<open>A byte-stream peer\<close>

text \<open>
  A character backend to run the device against: a connection that accepts \<open>tx_room\<close> more
  bytes before it fails, records the bytes it accepted in \<open>wire_tx\<close>, and delivers the bytes
  of \<open>wire_rx\<close>, as many as are asked for or as are left. Both primitives return the number
  of bytes transferred.
\<close>

record peer =
  peer_connected :: bool
  tx_room :: nat
  wire_tx :: "u8 list"
  wire_rx :: "u8 list"

definition peer_write_all :: "peer \<Rightarrow> u8 list \<Rightarrow> c_int \<times> peer" where
  "peer_write_all p bs =
     (let n = min (length bs) (tx_room p)
      in (of_nat n, p\<lparr>tx_room := tx_room p - n, wire_tx := wire_tx p @ take n bs\<rparr>))"

definition peer_read_all :: "peer \<Rightarrow> c_int \<Rightarrow> (c_int \<times> u8 list) \<times> peer" where
  "peer_read_all p len =
     (let n = min (nat (sint len)) (length (wire_rx p))
      in ((of_nat n, take n (wire_rx p)), p\<lparr>wire_rx := drop n (wire_rx p)\<rparr>))"

definition stream_backend :: "peer CharBackend" where
  "stream_backend =
     \<lparr>be_write_all = peer_write_all, be_read_all = peer_read_all, be_connected = peer_connected\<rparr>"

text \<open>A realized device with its lock free and nothing recorded yet, attached to a peer.\<close>

definition active_dev :: "peer \<Rightarrow> peer MMIOSockDevState" where
  "active_dev p =
     \<lparr>parent_obj = \<lparr>sysbus_mmio = [(\<lparr>mr_name = ''mmio-sockdev'', mr_size = 0x1000\<rparr>, None)]\<rparr>,
      mmio = Some \<lparr>mr_name = ''mmio-sockdev'', mr_size = 0x1000\<rparr>,
      chr = p, base_addr = 0, lock = Unlocked, trace = []\<rparr>"

text \<open>A device as the bus framework constructs it, before \<open>realize\<close>.\<close>

definition fresh_dev :: "peer \<Rightarrow> u64 \<Rightarrow> peer MMIOSockDevState" where
  "fresh_dev p addr =
     \<lparr>parent_obj = \<lparr>sysbus_mmio = []\<rparr>, mmio = None, chr = p, base_addr = addr,
      lock = Uninitialized, trace = []\<rparr>"

text \<open>A connected peer with room for 64 bytes that has \<open>reply\<close> ready to be read.\<close>

definition healthy_peer :: "u8 list \<Rightarrow> peer" where
  "healthy_peer reply = \<lparr>peer_connected = True, tx_room = 64, wire_tx = [], wire_rx = reply\<rparr>"

subsection \<open>Healthy exchanges\<close>

text \<open>
  \<open>healthy_read be c offset sz\<close>: in state \<open>c\<close> the backend takes the six bytes of the read
  request for \<open>offset\<close> and \<open>sz\<close>, then answers the read of \<open>sz\<close> bytes in full, and what it
  stores fits \<open>buf\<close>. \<open>healthy_write be c offset sz val\<close>: in state \<open>c\<close> the backend takes
  the whole packet of the write request, when the size is one for which a packet is sent.

  \<open>read_succeeds r s sz\<close>, \<open>write_succeeds r s sz\<close>: the access of size \<open>sz\<close> with result
  \<open>r\<close>, started in \<open>s\<close>, returned to the guest with the lock free and without a transport
  failure: it reported nothing, or, for a size other than 1, 2 and 4, only that size.
\<close>

definition healthy_read :: "'c CharBackend \<Rightarrow> 'c \<Rightarrow> hwaddr \<Rightarrow> u32 \<Rightarrow> bool" where
  "healthy_read be c offset sz =
     (case be_write_all be c (read_request_bytes offset sz) of
        (r1, c1) \<Rightarrow>
          r1 = 6 \<and>
          (case be_read_all be c1 sz of
             ((r2, data), c2) \<Rightarrow> r2 = sz \<and> length (take (nat (sint sz)) data) \<le> 8))"

definition healthy_write :: "'c CharBackend \<Rightarrow> 'c \<Rightarrow> hwaddr \<Rightarrow> u32 \<Rightarrow> u64 \<Rightarrow> bool" where
  "healthy_write be c offset sz val =
     ((sz \<noteq> 1 \<and> sz \<noteq> 2 \<and> sz \<noteq> 4)
      \<or> fst (be_write_all be c (write_request_bytes offset sz val)) = 6 + sz)"

definition read_succeeds ::
  "fault + (u64 \<times> 'c MMIOSockDevState) \<Rightarrow> 'c MMIOSockDevState \<Rightarrow> u32 \<Rightarrow> bool" where
  "read_succeeds r s sz =
     (case r of
        Inl f \<Rightarrow> False
      | Inr (v, s') \<Rightarrow>
          lock s' = Unlocked \<and>
          error_reports (trace s') =
            error_reports (trace s)
              @ (if sz = 1 \<or> sz = 2 \<or> sz = 4 then []
                 else [(''mmio-sockdev: invalid read size %u'', [sz])]))"

definition write_succeeds ::
  "fault + 'c MMIOSockDevState \<Rightarrow> 'c MMIOSockDevState \<Rightarrow> u32 \<Rightarrow> bool" where
  "write_succeeds r s sz =
     (case r of
        Inl f \<Rightarrow> False
      | Inr s' \<Rightarrow>
          lock s' = Unlocked \<and>
          error_reports (trace s') =
            error_reports (trace s)
              @ (if sz = 1 \<or> sz = 2 \<or> sz = 4 then []
                 else [(''mmio-sockdev: invalid write size %u'', [sz])]))"

section \<open>Properties\<close>

subsection \<open>Traces\<close>

lemma chr_writes_append: "chr_writes (xs @ ys) = chr_writes xs @ chr_writes ys"
  by (induction xs rule: chr_writes.induct) simp_all

lemma chr_reads_append: "chr_reads (xs @ ys) = chr_reads xs @ chr_reads ys"
  by (induction xs rule: chr_reads.induct) simp_all

lemma error_reports_append: "error_reports (xs @ ys) = error_reports xs @ error_reports ys"
  by (induction xs rule: error_reports.induct) simp_all

lemmas trace_append = chr_writes_append chr_reads_append error_reports_append

subsection \<open>Bytes of a truncated value\<close>

lemma byte_of_u32:
  "n \<le> 24 \<Longrightarrow> (ucast (drop_bit n (ucast (x::u64) :: u32)) :: u8) = ucast (drop_bit n x)"
  by (rule bit_word_eqI) (auto simp: bit_simps)

lemma byte_of_u16:
  "n \<le> 8 \<Longrightarrow> (ucast (drop_bit n (ucast (x::u64) :: u16)) :: u8) = ucast (drop_bit n x)"
  by (rule bit_word_eqI) (auto simp: bit_simps)

lemma byte0_of_u32: "(ucast (ucast (x::u64) :: u32) :: u8) = ucast x"
  by (rule bit_word_eqI) (auto simp: bit_simps)

lemma byte0_of_u16: "(ucast (ucast (x::u64) :: u16) :: u8) = ucast x"
  by (rule bit_word_eqI) (auto simp: bit_simps)

lemmas byte_of_trunc = byte_of_u32 byte_of_u16 byte0_of_u32 byte0_of_u16

subsection \<open>C integer conversions\<close>

lemma narrow_scast: "(ucast (scast (r :: c_int) :: u64) :: c_int) = r"
  by (rule bit_word_eqI) (auto simp: bit_simps)

text \<open>\<open>ret != sizeof(req)\<close> compares in \<open>size_t\<close>; it is the comparison of the \<open>int\<close> with 6.\<close>

lemma scast_ret_6: "((scast (ret :: c_int) :: u64) = 6) = (ret = 6)"
proof
  assume "(scast ret :: u64) = 6"
  then have "(ucast (scast ret :: u64) :: c_int) = ucast (6 :: u64)" by simp
  then show "ret = 6" by (simp add: narrow_scast)
next
  assume "ret = 6"
  then show "(scast ret :: u64) = 6" by simp
qed

text \<open>An \<open>unsigned\<close> of at most 8 passed as \<open>int len\<close> keeps its value.\<close>

lemma sint_small: "unat (sz :: c_int) \<le> 8 \<Longrightarrow> nat (sint sz) = unat sz"
proof -
  assume a: "unat sz \<le> 8"
  have iu: "uint sz = int (unat sz)" by simp
  have u: "uint sz \<le> 8" using a unfolding iu by linarith
  have u0: "0 \<le> uint sz" by simp
  have "sint sz = signed_take_bit 31 (uint sz)" by (simp add: sint_uint)
  also have "\<dots> = uint sz"
  proof (rule signed_take_bit_int_eq_self)
    show "- (2 ^ 31) \<le> uint sz" by (rule order_trans [OF _ u0]) simp
    show "uint sz < 2 ^ 31" by (rule le_less_trans [OF u]) simp
  qed
  finally show ?thesis by simp
qed

subsection \<open>The request packets\<close>

lemma read_req_bytes: "map (read_req offset sz) [0..<6] = read_request_bytes offset sz"
  by (simp add: read_req_def read_request_bytes_def le_bytes_def stl_le_p_def upt_rec
      byte_of_trunc)

lemma write_req_bytes_1:
  "map ((write_req_header req0 offset 1)(6 := ucast value)) [0..<7]
     = write_request_bytes offset 1 value"
  by (simp add: write_req_header_def write_request_bytes_def le_bytes_def stl_le_p_def upt_rec
      byte_of_trunc)

lemma write_req_bytes_2:
  "map (stw_le_p (write_req_header req0 offset 2) 6 (ucast value)) [0..<8]
     = write_request_bytes offset 2 value"
  by (simp add: write_req_header_def write_request_bytes_def le_bytes_def stl_le_p_def
      stw_le_p_def upt_rec byte_of_trunc)

lemma write_req_bytes_4:
  "map (stl_le_p (write_req_header req0 offset 4) 6 (ucast value)) [0..<10]
     = write_request_bytes offset 4 value"
  by (simp add: write_req_header_def write_request_bytes_def le_bytes_def stl_le_p_def
      upt_rec byte_of_trunc)

lemma write_req_bytes:
  assumes "sz = 1 \<or> sz = 2 \<or> sz = 4"
  shows "\<exists>req. write_req_data (write_req_header req0 offset sz) value sz = Some req
     \<and> map req [0..<nat (sint (6 + sz))] = write_request_bytes offset sz value"
  using assms
  by (auto simp: write_req_data_def write_req_bytes_1 write_req_bytes_2 write_req_bytes_4)

subsection \<open>What a write access does\<close>

lemma write_valid_result:
  assumes "lock s = Unlocked" and "sz = 1 \<or> sz = 2 \<or> sz = 4"
    and "be_write_all be (chr s) (write_request_bytes offset sz value) = (ret, c')"
  shows "mmio_sockdev_write be req0 s offset value sz =
     Inr (s\<lparr>chr := c', lock := Unlocked,
            trace := trace s @ [MutexLock, ChrWriteAll (write_request_bytes offset sz value)]
              @ (if ret \<noteq> 6 + sz
                 then [ErrorReport ''mmio-sockdev: failed to send write request'' []] else [])
              @ [MutexUnlock]\<rparr>)"
proof -
  from write_req_bytes [OF assms(2)] obtain req where
    req: "write_req_data (write_req_header req0 offset sz) value sz = Some req"
    and bytes: "map req [0..<nat (sint (6 + sz))] = write_request_bytes offset sz value"
    by blast
  show ?thesis
    using assms(1,3)
    by (simp add: mmio_sockdev_write_def qemu_mutex_lock_def req qemu_chr_fe_write_all_def bytes
        error_report_def qemu_mutex_unlock_def)
qed

lemma write_invalid_result:
  assumes "lock s = Unlocked" and "sz \<noteq> 1" and "sz \<noteq> 2" and "sz \<noteq> 4"
  shows "mmio_sockdev_write be req0 s offset value sz =
     Inr (s\<lparr>lock := Unlocked, trace := trace s @
       [MutexLock, ErrorReport ''mmio-sockdev: invalid write size %u'' [sz], MutexUnlock]\<rparr>)"
  using assms
  by (simp add: mmio_sockdev_write_def qemu_mutex_lock_def write_req_data_def
        error_report_def qemu_mutex_unlock_def)

subsection \<open>What a read access does\<close>

lemma read_short_write:
  assumes "lock s = Unlocked"
    and "be_write_all be (chr s) (read_request_bytes offset sz) = (r1, c1)"
    and "r1 \<noteq> 6"
  shows "mmio_sockdev_read be s offset sz =
     Inr (0, s\<lparr>lock := Unlocked, chr := c1,
       trace := trace s @ [MutexLock, ChrWriteAll (read_request_bytes offset sz),
         ErrorReport ''mmio-sockdev: failed to send read request'' [], MutexUnlock]\<rparr>)"
  using assms
  by (simp add: mmio_sockdev_read_def qemu_mutex_lock_def qemu_chr_fe_write_all_def
      read_req_bytes scast_ret_6 error_report_def qemu_mutex_unlock_def)

lemma qemu_chr_fe_read_all_fits:
  assumes "be_read_all be (chr s) len = ((ret, data), c')"
    and "stored = take (nat (sint len)) data"
    and "length stored \<le> cap"
  shows "qemu_chr_fe_read_all be s buf cap len =
     Inr (ret, (\<lambda>i. if i < length stored then stored ! i else buf i),
          s\<lparr>chr := c', trace := trace s @ [ChrReadAll len]\<rparr>)"
proof -
  have "\<not> cap < length (take (nat (sint len)) data)"
    using assms(3) [unfolded assms(2)] by (rule leD)
  then show ?thesis
    unfolding qemu_chr_fe_read_all_def Let_def assms(1) assms(2) prod.case
    by (simp only: if_False)
qed

lemma qemu_chr_fe_read_all_overrun:
  assumes "be_read_all be (chr s) len = ((ret, data), c')"
    and "cap < length (take (nat (sint len)) data)"
  shows "qemu_chr_fe_read_all be s buf cap len = Inl Buffer_Overrun"
  unfolding qemu_chr_fe_read_all_def Let_def assms(1) prod.case
  using assms(2) by (simp only: if_True)

lemma read_sent:
  assumes "lock s = Unlocked"
    and "be_write_all be (chr s) (read_request_bytes offset sz) = (6, c1)"
  shows "mmio_sockdev_read be s offset sz =
     (case qemu_chr_fe_read_all be
         (s\<lparr>lock := Locked, chr := c1,
            trace := trace s @ [MutexLock, ChrWriteAll (read_request_bytes offset sz)]\<rparr>)
         (\<lambda>_. 0) 8 sz of
        Inl f \<Rightarrow> Inl f
      | Inr (ret, buf', s3) \<Rightarrow>
          if ret \<noteq> sz then
            Inr (0, qemu_mutex_unlock
                      (error_report ''mmio-sockdev: failed to read response'' [] s3))
          else
            (let (value', s4) = read_convert sz buf' s3
             in Inr (value', qemu_mutex_unlock s4)))"
  using assms
  by (simp add: mmio_sockdev_read_def qemu_mutex_lock_def qemu_chr_fe_write_all_def
      read_req_bytes)

lemma read_overrun:
  assumes "lock s = Unlocked"
    and "be_write_all be (chr s) (read_request_bytes offset sz) = (6, c1)"
    and "be_read_all be c1 sz = ((r2, data), c2)"
    and "8 < length (take (nat (sint sz)) data)"
  shows "mmio_sockdev_read be s offset sz = Inl Buffer_Overrun"
proof -
  have "qemu_chr_fe_read_all be
         (s\<lparr>lock := Locked, chr := c1,
            trace := trace s @ [MutexLock, ChrWriteAll (read_request_bytes offset sz)]\<rparr>)
         (\<lambda>_. 0) 8 sz = Inl Buffer_Overrun"
    by (rule qemu_chr_fe_read_all_overrun [OF _ assms(4)]) (simp add: assms(3))
  then show ?thesis
    by (simp add: read_sent [OF assms(1,2)])
qed

lemma read_short_read:
  assumes "lock s = Unlocked"
    and "be_write_all be (chr s) (read_request_bytes offset sz) = (6, c1)"
    and "be_read_all be c1 sz = ((r2, data), c2)"
    and "length (take (nat (sint sz)) data) \<le> 8"
    and "r2 \<noteq> sz"
  shows "mmio_sockdev_read be s offset sz =
     Inr (0, s\<lparr>lock := Unlocked, chr := c2,
       trace := trace s @ [MutexLock, ChrWriteAll (read_request_bytes offset sz), ChrReadAll sz,
         ErrorReport ''mmio-sockdev: failed to read response'' [], MutexUnlock]\<rparr>)"
proof -
  have "qemu_chr_fe_read_all be
         (s\<lparr>lock := Locked, chr := c1,
            trace := trace s @ [MutexLock, ChrWriteAll (read_request_bytes offset sz)]\<rparr>)
         (\<lambda>_. 0) 8 sz =
        Inr (r2, (\<lambda>i. if i < length (take (nat (sint sz)) data)
                       then take (nat (sint sz)) data ! i else 0),
          s\<lparr>lock := Locked, chr := c1,
            trace := trace s @ [MutexLock, ChrWriteAll (read_request_bytes offset sz)]\<rparr>
           \<lparr>chr := c2, trace := trace (s\<lparr>lock := Locked, chr := c1,
            trace := trace s @ [MutexLock, ChrWriteAll (read_request_bytes offset sz)]\<rparr>)
              @ [ChrReadAll sz]\<rparr>)"
    by (rule qemu_chr_fe_read_all_fits [OF _ refl assms(4)]) (simp add: assms(3))
  then show ?thesis
    using assms(5)
    by (simp add: read_sent [OF assms(1,2)] error_report_def qemu_mutex_unlock_def)
qed

lemma read_full:
  assumes "lock s = Unlocked"
    and "be_write_all be (chr s) (read_request_bytes offset sz) = (6, c1)"
    and "be_read_all be c1 sz = ((sz, data), c2)"
    and "stored = take (nat (sint sz)) data"
    and "length stored \<le> 8"
  shows "mmio_sockdev_read be s offset sz =
     (let (v, s4) = read_convert sz (\<lambda>i. if i < length stored then stored ! i else 0)
             (s\<lparr>lock := Locked, chr := c2,
                trace := trace s @ [MutexLock, ChrWriteAll (read_request_bytes offset sz),
                  ChrReadAll sz]\<rparr>)
      in Inr (v, qemu_mutex_unlock s4))"
proof -
  have "qemu_chr_fe_read_all be
         (s\<lparr>lock := Locked, chr := c1,
            trace := trace s @ [MutexLock, ChrWriteAll (read_request_bytes offset sz)]\<rparr>)
         (\<lambda>_. 0) 8 sz =
        Inr (sz, (\<lambda>i. if i < length stored then stored ! i else 0),
          s\<lparr>lock := Locked, chr := c1,
            trace := trace s @ [MutexLock, ChrWriteAll (read_request_bytes offset sz)]\<rparr>
           \<lparr>chr := c2, trace := trace (s\<lparr>lock := Locked, chr := c1,
            trace := trace s @ [MutexLock, ChrWriteAll (read_request_bytes offset sz)]\<rparr>)
              @ [ChrReadAll sz]\<rparr>)"
    by (rule qemu_chr_fe_read_all_fits [OF _ assms(4,5)]) (simp add: assms(3))
  then show ?thesis
    by (simp add: read_sent [OF assms(1,2)])
qed

lemma stored_fits:
  assumes "unat (sz :: c_int) \<le> 8"
  shows "length (take (nat (sint sz)) data) \<le> 8"
  using assms by (simp add: sint_small)

text \<open>Every size in the range that \<open>mmio_sockdev_ops\<close> declares valid fits \<open>buf\<close>.\<close>

lemma declared_sizes_fit:
  assumes "valid_min_access_size mmio_sockdev_ops \<le> sz"
    and "sz \<le> valid_max_access_size mmio_sockdev_ops"
  shows "unat sz \<le> 8"
proof -
  from assms(2) have "sz \<le> 4"
    by (simp add: mmio_sockdev_ops_def)
  then have "unat sz \<le> unat (4 :: u32)"
    by (simp only: word_le_nat_alt)
  then show ?thesis
    by simp
qed

lemma valid_size_small: "sz = 1 \<or> sz = 2 \<or> sz = 4 \<Longrightarrow> unat (sz :: c_int) \<le> 8"
  by auto

text \<open>A read of at most 8 bytes returns, whatever the backend does.\<close>

lemma read_returns:
  assumes "lock s = Unlocked" and "unat sz \<le> 8"
  shows "\<exists>v s'. mmio_sockdev_read be s offset sz = Inr (v, s') \<and> lock s' = Unlocked
     \<and> chr_writes (trace s') = chr_writes (trace s) @ [read_request_bytes offset sz]"
proof -
  obtain r1 c1 where w: "be_write_all be (chr s) (read_request_bytes offset sz) = (r1, c1)"
    by (cases "be_write_all be (chr s) (read_request_bytes offset sz)")
  obtain r2 data c2 where r: "be_read_all be c1 sz = ((r2, data), c2)"
    by (cases "be_read_all be c1 sz") auto
  note fits = stored_fits [OF assms(2), of data]
  show ?thesis
  proof (cases "r1 = 6")
    case False
    show ?thesis
      by (simp add: read_short_write [OF assms(1) w False] trace_append)
  next
    case True
    note w6 = w [unfolded True]
    show ?thesis
    proof (cases "r2 = sz")
      case False
      show ?thesis
        by (simp add: read_short_read [OF assms(1) w6 r fits False] trace_append)
    next
      case True
      note rsz = r [unfolded True]
      show ?thesis
        unfolding read_full [OF assms(1) w6 rsz refl fits]
        by (simp add: read_convert_def qemu_mutex_unlock_def error_report_def trace_append)
    qed
  qed
qed

text \<open>A read of a valid size against a backend that takes the request and answers in full.\<close>

lemma read_healthy:
  assumes "lock s = Unlocked" and "sz = 1 \<or> sz = 2 \<or> sz = 4"
    and "be_write_all be (chr s) (read_request_bytes offset sz) = (6, c1)"
    and "be_read_all be c1 sz = ((sz, data), c2)"
    and "stored = take (nat (sint sz)) data"
    and "buf = (\<lambda>i. if i < length stored then stored ! i else 0)"
  shows "mmio_sockdev_read be s offset sz =
     Inr (if sz = 1 then ucast (buf 0)
          else if sz = 2 then scast (lduw_le_p buf 0) else scast (ldl_le_p buf 0),
          s\<lparr>lock := Unlocked, chr := c2,
            trace := trace s @ [MutexLock, ChrWriteAll (read_request_bytes offset sz),
              ChrReadAll sz, MutexUnlock]\<rparr>)"
proof -
  have fits: "length stored \<le> 8"
    unfolding assms(5) by (rule stored_fits [OF valid_size_small [OF assms(2)]])
  show ?thesis
    unfolding read_full [OF assms(1,3,4,5) fits] assms(6) [symmetric]
    using assms(2) by (auto simp: read_convert_def qemu_mutex_unlock_def)
qed

text \<open>Any read and any write served by the backend succeeds on a device whose lock is free.\<close>

lemma read_next_succeeds:
  assumes "lock s = Unlocked" and "healthy_read be (chr s) offset sz"
  shows "read_succeeds (mmio_sockdev_read be s offset sz) s sz"
proof -
  obtain r1 c1 where w: "be_write_all be (chr s) (read_request_bytes offset sz) = (r1, c1)"
    by (cases "be_write_all be (chr s) (read_request_bytes offset sz)")
  obtain r2 data c2 where r: "be_read_all be c1 sz = ((r2, data), c2)"
    by (cases "be_read_all be c1 sz") auto
  from assms(2) w r have r1: "r1 = 6" and r2: "r2 = sz"
    and fits: "length (take (nat (sint sz)) data) \<le> 8"
    by (simp_all add: healthy_read_def)
  show ?thesis
    unfolding read_full [OF assms(1) w [unfolded r1] r [unfolded r2] refl fits]
    by (simp add: read_succeeds_def read_convert_def qemu_mutex_unlock_def error_report_def
        trace_append)
qed

lemma write_next_succeeds:
  assumes "lock s = Unlocked" and "healthy_write be (chr s) offset sz val"
  shows "write_succeeds (mmio_sockdev_write be rq s offset val sz) s sz"
proof (cases "sz = 1 \<or> sz = 2 \<or> sz = 4")
  case True
  obtain ret c' where w: "be_write_all be (chr s) (write_request_bytes offset sz val) = (ret, c')"
    by (cases "be_write_all be (chr s) (write_request_bytes offset sz val)")
  from assms(2) True w have ret: "ret = 6 + sz"
    by (auto simp: healthy_write_def)
  show ?thesis
    unfolding write_valid_result [OF assms(1) True w]
    using True by (simp add: write_succeeds_def ret trace_append)
next
  case False
  then have n: "sz \<noteq> 1" "sz \<noteq> 2" "sz \<noteq> 4" by simp_all
  show ?thesis
    unfolding write_invalid_result [OF assms(1) n]
    using False by (simp add: write_succeeds_def trace_append)
qed

text \<open>Whenever a read returns, it has handed the backend the request, and nothing else.\<close>

lemma read_result_writes:
  assumes "lock s = Unlocked" and "mmio_sockdev_read be s offset sz = Inr (v, s')"
  shows "chr_writes (trace s') = chr_writes (trace s) @ [read_request_bytes offset sz]"
proof -
  obtain r1 c1 where w: "be_write_all be (chr s) (read_request_bytes offset sz) = (r1, c1)"
    by (cases "be_write_all be (chr s) (read_request_bytes offset sz)")
  obtain r2 data c2 where r: "be_read_all be c1 sz = ((r2, data), c2)"
    by (cases "be_read_all be c1 sz") auto
  show ?thesis
  proof (cases "r1 = 6")
    case False
    from assms(2) show ?thesis
      unfolding read_short_write [OF assms(1) w False]
      by (auto simp: trace_append)
  next
    case True
    note w6 = w [unfolded True]
    show ?thesis
    proof (cases "8 < length (take (nat (sint sz)) data)")
      case True
      from assms(2) show ?thesis
        unfolding read_overrun [OF assms(1) w6 r True] by simp
    next
      case False
      then have fits: "length (take (nat (sint sz)) data) \<le> 8"
        by (rule leI)
      show ?thesis
      proof (cases "r2 = sz")
        case False
        from assms(2) show ?thesis
          unfolding read_short_read [OF assms(1) w6 r fits False]
          by (auto simp: trace_append)
      next
        case True
        from assms(2) show ?thesis
          unfolding read_full [OF assms(1) w6 r [unfolded True] refl fits]
          by (auto simp: read_convert_def qemu_mutex_unlock_def error_report_def trace_append
              split: if_splits)
      qed
    qed
  qed
qed

subsection \<open>Runs against the byte-stream peer\<close>

lemma active_dev_sel:
  "lock (active_dev p) = Unlocked" "trace (active_dev p) = []" "chr (active_dev p) = p"
  by (simp_all add: active_dev_def)


lemma run_write_1:
  "mmio_sockdev_write stream_backend (\<lambda>_. 0) (active_dev (healthy_peer [])) 0 0x42 1
     = Inr ((active_dev \<lparr>peer_connected = True, tx_room = 57,
               wire_tx = [0x57, 0, 0, 0, 0, 1, 0x42], wire_rx = []\<rparr>)
             \<lparr>trace := [MutexLock, ChrWriteAll [0x57, 0, 0, 0, 0, 1, 0x42], MutexUnlock]\<rparr>)"
  by code_simp


subsection \<open>The conversion of the response\<close>

lemma decode_1: "b0 = ucast v \<Longrightarrow> (ucast (b0 :: u8) :: u64) = take_bit 8 (v :: u64)"
  by (rule bit_word_eqI) (auto simp: bit_simps)

lemma decode_2:
  assumes "buf 0 = ucast (v :: u64)" and "buf (0 + 1) = ucast (drop_bit 8 v)"
  shows "(scast (lduw_le_p buf 0) :: u64) = take_bit 16 v"
  unfolding lduw_le_p_def assms
  by (rule bit_word_eqI) (auto simp: bit_simps)

lemma cat_4_bytes:
  "(ucast (ucast (v::u64) :: u8) OR push_bit 8 (ucast (ucast (drop_bit 8 v) :: u8))
      OR push_bit 16 (ucast (ucast (drop_bit 16 v) :: u8))
      OR push_bit 24 (ucast (ucast (drop_bit 24 v) :: u8)) :: u32)
    = ucast v"
proof (rule bit_word_eqI)
  fix n assume "n < LENGTH(32)"
  then have n: "n < 32" by simp
  consider "n < 8" | "8 \<le> n" "n < 16" | "16 \<le> n" "n < 24" | "24 \<le> n" "n < 32"
    using n by linarith
  then show "bit (ucast (ucast (v::u64) :: u8) OR push_bit 8 (ucast (ucast (drop_bit 8 v) :: u8))
      OR push_bit 16 (ucast (ucast (drop_bit 16 v) :: u8))
      OR push_bit 24 (ucast (ucast (drop_bit 24 v) :: u8)) :: u32) n
      = bit (ucast v :: u32) n"
    by cases (auto simp: bit_simps)
qed

lemma decode_4:
  assumes "buf 0 = ucast (v :: u64)" and "buf (0 + 1) = ucast (drop_bit 8 v)"
    and "buf (0 + 2) = ucast (drop_bit 16 v)" and "buf (0 + 3) = ucast (drop_bit 24 v)"
  shows "(scast (ldl_le_p buf 0) :: u64) = scast (ucast v :: u32)"
  unfolding ldl_le_p_def assms cat_4_bytes by (rule refl)

lemma scast_low_32: "take_bit 32 (scast (x :: u32) :: u64) = ucast x"
proof (rule bit_word_eqI)
  fix n assume "n < LENGTH(64)"
  show "bit (take_bit 32 (scast x :: u64)) n = bit (ucast x :: u64) n"
  proof (cases "n < 31")
    case True
    then show ?thesis by (auto simp: bit_simps min_def)
  next
    case False
    show ?thesis
    proof (cases "n = 31")
      case True
      then show ?thesis by (auto simp: bit_simps min_def)
    next
      case False
      with \<open>\<not> n < 31\<close> have "32 \<le> n" by linarith
      then show ?thesis by (auto simp: bit_simps min_def dest: bit_imp_le_length)
    qed
  qed
qed

lemma length_le_bytes: "length (le_bytes n v) = n"
  by (simp add: le_bytes_def)

lemma buf_le_bytes:
  "i < n \<Longrightarrow> (if i < length (le_bytes n v) then le_bytes n v ! i else 0)
     = ucast (drop_bit (8 * i) v)"
  by (simp add: le_bytes_def)

text \<open>
  What the conversion does with the little-endian encoding of \<open>v\<close>: sizes 1 and 2 give
  \<open>v\<close> truncated to the width, size 4 gives the low 32 bits of \<open>v\<close> extended by their sign.
\<close>

lemma read_decodes:
  assumes "lock s = Unlocked" and "sz = 1 \<or> sz = 2 \<or> sz = 4"
    and "be_write_all be (chr s) (read_request_bytes offset sz) = (6, c1)"
    and "be_read_all be c1 sz = ((sz, le_bytes (unat sz) v), c2)"
  shows "\<exists>s'. mmio_sockdev_read be s offset sz =
           Inr (if sz = 4 then scast (ucast v :: u32) else take_bit (8 * unat sz) v, s')"
proof -
  define buf :: buffer
    where "buf = (\<lambda>i. if i < length (le_bytes (unat sz) v) then le_bytes (unat sz) v ! i else 0)"
  have b: "buf i = ucast (drop_bit (8 * i) v)" if "i < unat sz" for i
    unfolding buf_def using that by (rule buf_le_bytes)
  have st: "le_bytes (unat sz) v = take (nat (sint sz)) (le_bytes (unat sz) v)"
    by (simp add: sint_small [OF valid_size_small [OF assms(2)]] length_le_bytes)
  note res = read_healthy [OF assms(1,2,3,4) st buf_def]
  have m: "(8::nat) * 0 = 0" "(8::nat) * 1 = 8" "(8::nat) * 2 = 16" "(8::nat) * 3 = 24"
    by simp_all
  have d0: "drop_bit 0 v = v"
    by simp
  from assms(2) consider (one) "sz = 1" | (two) "sz = 2" | (four) "sz = 4"
    by blast
  then show ?thesis
  proof cases
    case one
    have lt: "0 < unat sz"
      by (simp add: one)
    note f = b [OF lt, unfolded m d0]
    from decode_1 [OF f] show ?thesis
      unfolding res by (simp add: one)
  next
    case two
    have lt: "0 < unat sz" "1 < unat sz"
      by (simp_all add: two)
    note f = b [OF lt(1), unfolded m d0] b [OF lt(2), unfolded m]
    from decode_2 [of buf v, unfolded add_0, OF f] show ?thesis
      unfolding res by (simp add: two)
  next
    case four
    have lt: "0 < unat sz" "1 < unat sz" "2 < unat sz" "3 < unat sz"
      by (simp_all add: four)
    note f = b [OF lt(1), unfolded m d0] b [OF lt(2), unfolded m]
      b [OF lt(3), unfolded m] b [OF lt(4), unfolded m]
    from decode_4 [of buf v, unfolded add_0, OF f] show ?thesis
      unfolding res by (simp add: four)
  qed
qed

subsection \<open>The address field\<close>

lemma offset_mod_ucast:
  "(unat (o1 :: u64) mod 2 ^ 32 = unat (o2 :: u64) mod 2 ^ 32) = ((ucast o1 :: u32) = ucast o2)"
proof -
  have u: "\<And>x :: u64. unat (ucast x :: u32) = unat x mod 2 ^ 32"
    by (simp add: unsigned_ucast_eq take_bit_eq_mod unat_mod)
  show ?thesis
    by (simp add: word_unat_eq_iff [of "ucast o1 :: u32"] u)
qed

lemma offset_mod_word: "(word_of_nat (unat (x :: u64) mod 2 ^ 32) :: u64) = take_bit 32 x"
proof -
  have "unat (take_bit 32 x) = unat x mod 2 ^ 32"
    by (simp add: unsigned_take_bit_eq take_bit_eq_mod unat_mod)
  then have "word_of_nat (unat x mod 2 ^ 32) = (word_of_nat (unat (take_bit 32 x)) :: u64)"
    by simp
  then show ?thesis by simp
qed

lemma le_bytes_4_low: "le_bytes 4 (take_bit 32 x) = le_bytes 4 x"
proof -
  have "\<And>n. n \<le> 24 \<Longrightarrow> (ucast (drop_bit n (take_bit 32 x)) :: u8) = ucast (drop_bit n x)"
    by (rule bit_word_eqI) (auto simp: bit_simps)
  moreover have "(ucast (take_bit 32 x) :: u8) = ucast x"
    by (rule bit_word_eqI) (auto simp: bit_simps)
  ultimately show ?thesis
    by (simp add: le_bytes_def upt_rec)
qed

lemma read_req_addr: "map (read_req offset sz) [1..<5] = le_bytes 4 offset"
  by (simp add: read_req_def le_bytes_def stl_le_p_def upt_rec byte_of_trunc)

lemma write_req_header_addr: "map (write_req_header rq offset sz) [1..<5] = le_bytes 4 offset"
  by (simp add: write_req_header_def le_bytes_def stl_le_p_def upt_rec byte_of_trunc)

subsection \<open>Writes and the incoming bytes\<close>

lemma write_result_chr:
  assumes "lock s = Unlocked"
  shows "\<exists>s'. mmio_sockdev_write be rq s offset val sz = Inr s'
     \<and> chr_reads (trace s') = chr_reads (trace s)
     \<and> (chr s' = chr s
          \<or> chr s' = snd (be_write_all be (chr s) (write_request_bytes offset sz val)))"
proof (cases "sz = 1 \<or> sz = 2 \<or> sz = 4")
  case True
  obtain ret c' where w: "be_write_all be (chr s) (write_request_bytes offset sz val) = (ret, c')"
    by (cases "be_write_all be (chr s) (write_request_bytes offset sz val)")
  show ?thesis
    by (simp add: write_valid_result [OF assms True w] w trace_append)
next
  case False
  then have "sz \<noteq> 1" "sz \<noteq> 2" "sz \<noteq> 4" by simp_all
  from write_invalid_result [OF assms this]
  show ?thesis by (simp add: trace_append)
qed

lemma peer_write_all_rx: "wire_rx (snd (be_write_all stream_backend p bs)) = wire_rx p"
  by (simp add: stream_backend_def peer_write_all_def Let_def)

subsection \<open>More runs against the byte-stream peer\<close>

lemma run_write_short:
  "mmio_sockdev_write stream_backend (\<lambda>_. 0)
     (active_dev \<lparr>peer_connected = True, tx_room = 3, wire_tx = [], wire_rx = [0x41, 0x42]\<rparr>)
     8 0x1234 2
   = Inr ((active_dev \<lparr>peer_connected = True, tx_room = 0, wire_tx = [0x57, 8, 0],
             wire_rx = [0x41, 0x42]\<rparr>)
          \<lparr>trace := [MutexLock, ChrWriteAll [0x57, 8, 0, 0, 0, 2, 0x34, 0x12],
             ErrorReport ''mmio-sockdev: failed to send write request'' [], MutexUnlock]\<rparr>)"
  by code_simp

lemma run_read_short:
  "mmio_sockdev_read stream_backend (active_dev (healthy_peer [0x11])) 4 2
     = Inr (0, (active_dev \<lparr>peer_connected = True, tx_room = 58,
               wire_tx = [0x52, 4, 0, 0, 0, 2], wire_rx = []\<rparr>)
             \<lparr>trace := [MutexLock, ChrWriteAll [0x52, 4, 0, 0, 0, 2], ChrReadAll 2,
                 ErrorReport ''mmio-sockdev: failed to read response'' [], MutexUnlock]\<rparr>)"
  by code_simp

lemma run_read_after_short:
  "mmio_sockdev_read stream_backend
     ((active_dev \<lparr>peer_connected = True, tx_room = 58,
               wire_tx = [0x52, 4, 0, 0, 0, 2], wire_rx = []\<rparr>)
             \<lparr>trace := [MutexLock, ChrWriteAll [0x52, 4, 0, 0, 0, 2], ChrReadAll 2,
                 ErrorReport ''mmio-sockdev: failed to read response'' [], MutexUnlock],
               chr := healthy_peer [0x41]\<rparr>) 0 1
     = Inr (0x41, (active_dev \<lparr>peer_connected = True, tx_room = 58,
               wire_tx = [0x52, 0, 0, 0, 0, 1], wire_rx = []\<rparr>)
             \<lparr>trace := [MutexLock, ChrWriteAll [0x52, 4, 0, 0, 0, 2], ChrReadAll 2,
                 ErrorReport ''mmio-sockdev: failed to read response'' [], MutexUnlock,
                 MutexLock, ChrWriteAll [0x52, 0, 0, 0, 0, 1], ChrReadAll 1, MutexUnlock]\<rparr>)"
  by code_simp

lemma peer_short_exchange:
  "be_write_all stream_backend (chr (active_dev (healthy_peer [0x11]))) (read_request_bytes 4 2)
     = (6, \<lparr>peer_connected = True, tx_room = 58, wire_tx = [0x52, 4, 0, 0, 0, 2], wire_rx = [0x11]\<rparr>)"
  "be_read_all stream_backend
     \<lparr>peer_connected = True, tx_room = 58, wire_tx = [0x52, 4, 0, 0, 0, 2], wire_rx = [0x11]\<rparr> 2
     = ((1, [0x11]), \<lparr>peer_connected = True, tx_room = 58, wire_tx = [0x52, 4, 0, 0, 0, 2], wire_rx = []\<rparr>)"
  by code_simp+

lemma peer_healthy_exchange: "healthy_read stream_backend (healthy_peer [0x41]) 0 1"
  by (simp add: healthy_read_def stream_backend_def peer_write_all_def peer_read_all_def
      healthy_peer_def read_request_bytes_def le_bytes_def)

lemma peer_healthy_write: "healthy_write stream_backend (healthy_peer []) 0 1 0x42"
  by (simp add: healthy_write_def stream_backend_def peer_write_all_def healthy_peer_def
      write_request_bytes_def le_bytes_def)

lemma run_write_after_short:
  "mmio_sockdev_write stream_backend (\<lambda>_. 0)
     ((active_dev \<lparr>peer_connected = True, tx_room = 58,
               wire_tx = [0x52, 4, 0, 0, 0, 2], wire_rx = []\<rparr>)
             \<lparr>trace := [MutexLock, ChrWriteAll [0x52, 4, 0, 0, 0, 2], ChrReadAll 2,
                 ErrorReport ''mmio-sockdev: failed to read response'' [], MutexUnlock],
               chr := healthy_peer []\<rparr>) 0 0x42 1
     = Inr ((active_dev \<lparr>peer_connected = True, tx_room = 57,
               wire_tx = [0x57, 0, 0, 0, 0, 1, 0x42], wire_rx = []\<rparr>)
             \<lparr>trace := [MutexLock, ChrWriteAll [0x52, 4, 0, 0, 0, 2], ChrReadAll 2,
                 ErrorReport ''mmio-sockdev: failed to read response'' [], MutexUnlock,
                 MutexLock, ChrWriteAll [0x57, 0, 0, 0, 0, 1, 0x42], MutexUnlock]\<rparr>)"
  by code_simp

text \<open>
  A read of size 10 whose request is sent and whose response of nine bytes is stored into
  the eight-byte \<open>buf\<close>.
\<close>

lemma run_read_overrun:
  "mmio_sockdev_read stream_backend (active_dev (healthy_peer [1, 2, 3, 4, 5, 6, 7, 8, 9])) 0 10
     = Inl Buffer_Overrun"
  by code_simp

section \<open>The claims\<close>

subsection \<open>Reads of an invalid size\<close>

text \<open>
  C1 (the code does not do this). The claim is that a read of a size other than 1, 2 and 4
  is rejected before any transport I/O, with no backend write and no backend read. The code
  checks the size only in the conversion switch, after the exchange. Here a read of size 3
  at offset 0, against a peer that has three bytes ready: the request \<open>52 00 00 00 00 03\<close>
  is written to the backend, three bytes are read from it, and only then the invalid size is
  reported and 0 returned. \<open>mmio_sockdev_write\<close> does reject the size before it sends.
\<close>

theorem read_invalid_size_after_io:
  "mmio_sockdev_read stream_backend (active_dev (healthy_peer [0x11, 0x22, 0x33])) 0 3
     = Inr (0, (active_dev \<lparr>peer_connected = True, tx_room = 58,
                  wire_tx = [0x52, 0, 0, 0, 0, 3], wire_rx = []\<rparr>)
                \<lparr>trace := [MutexLock, ChrWriteAll [0x52, 0, 0, 0, 0, 3], ChrReadAll 3,
                    ErrorReport ''mmio-sockdev: invalid read size %u'' [3], MutexUnlock]\<rparr>)"
  by code_simp

subsection \<open>Write requests on the wire\<close>

text \<open>
  C2. For every offset, every size in \<open>{1, 2, 4}\<close> and every 64-bit value, a write access on
  a device whose lock is free returns, and hands the backend exactly one packet: \<open>'W'\<close>
  (\<open>0x57\<close>), the offset as a 32-bit little-endian address, the size, and the value truncated
  to \<open>size\<close> bytes, least significant byte first; the packet has \<open>6 + size\<close> bytes. For
  offset 0, size 1 and value \<open>0x42\<close> the packet is \<open>57 00 00 00 00 01 42\<close>.
\<close>

theorem write_request_wire:
  assumes "lock s = Unlocked" and "sz = 1 \<or> sz = 2 \<or> sz = 4"
  shows "(\<exists>s'. mmio_sockdev_write be rq s offset val sz = Inr s'
            \<and> chr_writes (trace s') =
                chr_writes (trace s)
                  @ [[0x57] @ le_bytes 4 offset @ [ucast sz] @ le_bytes (unat sz) val])
         \<and> length ([0x57] @ le_bytes 4 offset @ [ucast sz] @ le_bytes (unat sz) val) = 6 + unat sz
         \<and> [0x57] @ le_bytes 4 0 @ [ucast (1 :: u32)] @ le_bytes (unat (1 :: u32)) 0x42
              = [0x57, 0, 0, 0, 0, 1, 0x42]"
proof -
  obtain ret c' where w: "be_write_all be (chr s) (write_request_bytes offset sz val) = (ret, c')"
    by (cases "be_write_all be (chr s) (write_request_bytes offset sz val)")
  have "\<exists>s'. mmio_sockdev_write be rq s offset val sz = Inr s'
           \<and> chr_writes (trace s') = chr_writes (trace s) @ [write_request_bytes offset sz val]"
    by (simp add: write_valid_result [OF assms w] trace_append)
  moreover have "length (write_request_bytes offset sz val) = 6 + unat sz"
    by (simp add: write_request_bytes_def le_bytes_def)
  moreover have "write_request_bytes 0 1 0x42 = [0x57, 0, 0, 0, 0, 1, 0x42]"
    by (simp add: write_request_bytes_def le_bytes_def upt_rec)
  ultimately show ?thesis
    unfolding write_request_bytes_def by blast
qed

text \<open>
  The end-to-end example of the protocol: after the write of \<open>0x42\<close> to offset 0 with size 1
  the peer has observed the seven bytes \<open>57 00 00 00 00 01 42\<close> and nothing else.
\<close>

theorem write_request_wire_witness:
  "lock (active_dev (healthy_peer [])) = Unlocked
   \<and> ((1 :: u32) = 1 \<or> (1 :: u32) = 2 \<or> (1 :: u32) = 4)
   \<and> (\<exists>s'. mmio_sockdev_write stream_backend (\<lambda>_. 0) (active_dev (healthy_peer [])) 0 0x42 1
              = Inr s'
         \<and> chr_writes (trace s') = [[0x57, 0, 0, 0, 0, 1, 0x42]]
         \<and> wire_tx (chr s') = [0x57, 0, 0, 0, 0, 1, 0x42])"
proof -
  have l: "lock (active_dev (healthy_peer [])) = Unlocked"
    by (rule active_dev_sel)
  have v: "(1 :: u32) = 1 \<or> (1 :: u32) = 2 \<or> (1 :: u32) = 4"
    by simp
  note w = write_request_wire [OF l v, of stream_backend "\<lambda>_. 0" 0 "0x42"]
  have tx: "wire_tx (chr ((active_dev \<lparr>peer_connected = True, tx_room = 57,
               wire_tx = [0x57, 0, 0, 0, 0, 1, 0x42], wire_rx = []\<rparr>)
             \<lparr>trace := [MutexLock, ChrWriteAll [0x57, 0, 0, 0, 0, 1, 0x42], MutexUnlock]\<rparr>))
       = [0x57, 0, 0, 0, 0, 1, 0x42]"
    by (simp add: active_dev_def)
  from w have pkt: "[0x57] @ le_bytes 4 0 @ [ucast (1 :: u32)] @ le_bytes (unat (1 :: u32)) 0x42
      = [0x57, 0, 0, 0, 0, 1, 0x42]"
    by (rule conjunct2 [THEN conjunct2])
  from w have "\<exists>s'. mmio_sockdev_write stream_backend (\<lambda>_. 0) (active_dev (healthy_peer [])) 0 0x42 1
          = Inr s'
         \<and> chr_writes (trace s') = [[0x57, 0, 0, 0, 0, 1, 0x42]]"
    unfolding active_dev_sel chr_writes.simps pkt append_Nil by (rule conjunct1)
  then obtain s' where
    s': "mmio_sockdev_write stream_backend (\<lambda>_. 0) (active_dev (healthy_peer [])) 0 0x42 1 = Inr s'"
    and cw: "chr_writes (trace s') = [[0x57, 0, 0, 0, 0, 1, 0x42]]"
    by blast
  from s' [unfolded run_write_1] have "wire_tx (chr s') = [0x57, 0, 0, 0, 0, 1, 0x42]"
    using tx by simp
  with s' cw l v show ?thesis by blast
qed

subsection \<open>Read requests on the wire\<close>



subsection \<open>Decoding the response\<close>

text \<open>
  C4 (the code does not do this for size 4). The claim is that decoding the little-endian
  encoding of \<open>v\<close> in \<open>size\<close> bytes yields \<open>v mod 2 ^ (8 * size)\<close>. \<open>ldl_le_p\<close> returns an
  \<open>int\<close>, and the assignment to the \<open>uint64_t value\<close> extends its sign: for \<open>v = 0x80000000\<close>,
  encoded as \<open>00 00 00 80\<close>, the read of size 4 returns \<open>0xFFFFFFFF80000000\<close>, not
  \<open>0x80000000\<close>. Sizes 1 and 2 are decoded without sign.
\<close>

theorem read_size4_sign_extends:
  "le_bytes 4 0x80000000 = [0, 0, 0, 0x80]
   \<and> map_sum id fst
        (mmio_sockdev_read stream_backend (active_dev (healthy_peer (le_bytes 4 0x80000000))) 0 4)
      = Inr 0xFFFFFFFF80000000"
  by code_simp

subsection \<open>Transport failures during a read\<close>

text \<open>
  C5. On a device whose lock is free, for every offset and size. If the backend does not
  take the six bytes of the read request (\<open>r1 \<noteq> 6\<close>), the access reports the failed send,
  returns 0 and does not read from the backend. If it takes them and then does not deliver
  \<open>size\<close> bytes (\<open>r2 \<noteq> size\<close>), the access reports the failed read and returns 0; this for
  every response that the eight bytes of \<open>buf\<close> can hold, which is every response to a size
  of at most 8. In both cases the lock is free afterwards, and any following access, a read
  or a write of any offset, size and value, succeeds once the backend, in whatever state
  \<open>c'\<close> it then is, serves that exchange.
\<close>

theorem read_transport_failure:
  assumes "lock s = Unlocked"
    and w: "be_write_all be (chr s) (read_request_bytes offset sz) = (r1, c1)"
    and r: "be_read_all be c1 sz = ((r2, data), c2)"
    and short: "r1 \<noteq> 6 \<or> (r2 \<noteq> sz \<and> length (take (nat (sint sz)) data) \<le> 8)"
  shows "\<exists>s'. mmio_sockdev_read be s offset sz = Inr (0, s')
     \<and> lock s' = Unlocked
     \<and> error_reports (trace s') = error_reports (trace s) @
          [(if r1 \<noteq> 6 then ''mmio-sockdev: failed to send read request''
            else ''mmio-sockdev: failed to read response'', [])]
     \<and> chr_reads (trace s') = chr_reads (trace s) @ (if r1 \<noteq> 6 then [] else [sz])
     \<and> (\<forall>c' offset' sz'.
           healthy_read be c' offset' sz'
            \<longrightarrow> read_succeeds (mmio_sockdev_read be (s'\<lparr>chr := c'\<rparr>) offset' sz')
                  (s'\<lparr>chr := c'\<rparr>) sz')
     \<and> (\<forall>c' rq offset' sz' val'.
           healthy_write be c' offset' sz' val'
            \<longrightarrow> write_succeeds (mmio_sockdev_write be rq (s'\<lparr>chr := c'\<rparr>) offset' val' sz')
                  (s'\<lparr>chr := c'\<rparr>) sz')"
proof (cases "r1 = 6")
  case False
  note res = read_short_write [OF assms(1) w False]
  show ?thesis
    unfolding res using False
    by (simp add: trace_append read_next_succeeds write_next_succeeds)
next
  case True
  with short have r2: "r2 \<noteq> sz" and fits: "length (take (nat (sint sz)) data) \<le> 8"
    by simp_all
  note res = read_short_read [OF assms(1) w [unfolded True] r fits r2]
  show ?thesis
    unfolding res using True
    by (simp add: trace_append read_next_succeeds write_next_succeeds)
qed

text \<open>
  The short response of the protocol's test: the peer takes the request for two bytes and
  delivers one. The access returns 0 with the diagnostic, the lock is free, and then a read
  against a peer that answers \<open>0x41\<close> returns \<open>0x41\<close>, and a write is sent in full.
\<close>

theorem read_transport_failure_witness:
  "lock (active_dev (healthy_peer [0x11])) = Unlocked
   \<and> fst (be_write_all stream_backend (chr (active_dev (healthy_peer [0x11])))
             (read_request_bytes 4 2)) = 6
   \<and> fst (fst (be_read_all stream_backend
             (snd (be_write_all stream_backend (chr (active_dev (healthy_peer [0x11])))
                (read_request_bytes 4 2))) 2)) \<noteq> 2
   \<and> length (take (nat (sint (2 :: c_int))) [0x11 :: u8]) \<le> 8
   \<and> (\<exists>s'. mmio_sockdev_read stream_backend (active_dev (healthy_peer [0x11])) 4 2 = Inr (0, s')
         \<and> lock s' = Unlocked
         \<and> error_reports (trace s') = [(''mmio-sockdev: failed to read response'', [])]
         \<and> healthy_read stream_backend (healthy_peer [0x41]) 0 1
         \<and> read_succeeds
              (mmio_sockdev_read stream_backend (s'\<lparr>chr := healthy_peer [0x41]\<rparr>) 0 1)
              (s'\<lparr>chr := healthy_peer [0x41]\<rparr>) 1
         \<and> map_sum id fst
              (mmio_sockdev_read stream_backend (s'\<lparr>chr := healthy_peer [0x41]\<rparr>) 0 1)
            = Inr 0x41
         \<and> healthy_write stream_backend (healthy_peer []) 0 1 0x42
         \<and> write_succeeds
              (mmio_sockdev_write stream_backend (\<lambda>_. 0) (s'\<lparr>chr := healthy_peer []\<rparr>) 0 0x42 1)
              (s'\<lparr>chr := healthy_peer []\<rparr>) 1
         \<and> map_sum id (\<lambda>s''. wire_tx (chr s''))
              (mmio_sockdev_write stream_backend (\<lambda>_. 0) (s'\<lparr>chr := healthy_peer []\<rparr>) 0 0x42 1)
            = Inr [0x57, 0, 0, 0, 0, 1, 0x42])"
proof -
  have l: "lock (active_dev (healthy_peer [0x11])) = Unlocked"
    by (rule active_dev_sel)
  have fits: "length (take (nat (sint (2 :: c_int))) [0x11 :: u8]) \<le> 8"
    by simp
  have short: "(6 :: c_int) \<noteq> 6
      \<or> ((1 :: c_int) \<noteq> 2 \<and> length (take (nat (sint (2 :: c_int))) [0x11 :: u8]) \<le> 8)"
    by simp
  note t = read_transport_failure [OF l peer_short_exchange short]
  from t obtain s' where
    s': "mmio_sockdev_read stream_backend (active_dev (healthy_peer [0x11])) 4 2 = Inr (0, s')"
    and lk: "lock s' = Unlocked"
    and er: "error_reports (trace s') = error_reports (trace (active_dev (healthy_peer [0x11])))
         @ [(if (6 :: c_int) \<noteq> 6 then ''mmio-sockdev: failed to send read request''
            else ''mmio-sockdev: failed to read response'', [])]"
    and nx: "\<forall>c' offset' sz'.
           healthy_read stream_backend c' offset' sz'
            \<longrightarrow> read_succeeds (mmio_sockdev_read stream_backend (s'\<lparr>chr := c'\<rparr>) offset' sz')
                  (s'\<lparr>chr := c'\<rparr>) sz'"
    and nw: "\<forall>c' rq offset' sz' val'.
           healthy_write stream_backend c' offset' sz' val'
            \<longrightarrow> write_succeeds
                  (mmio_sockdev_write stream_backend rq (s'\<lparr>chr := c'\<rparr>) offset' val' sz')
                  (s'\<lparr>chr := c'\<rparr>) sz'"
    by blast
  from er have er': "error_reports (trace s') = [(''mmio-sockdev: failed to read response'', [])]"
    by (simp add: active_dev_sel)
  from nx [rule_format, OF peer_healthy_exchange]
  have ok: "read_succeeds
              (mmio_sockdev_read stream_backend (s'\<lparr>chr := healthy_peer [0x41]\<rparr>) 0 1)
              (s'\<lparr>chr := healthy_peer [0x41]\<rparr>) 1" .
  from nw [rule_format, OF peer_healthy_write, of "\<lambda>_. 0"]
  have okw: "write_succeeds
              (mmio_sockdev_write stream_backend (\<lambda>_. 0) (s'\<lparr>chr := healthy_peer []\<rparr>) 0 0x42 1)
              (s'\<lparr>chr := healthy_peer []\<rparr>) 1" .
  from s' [unfolded run_read_short] have s'_eq: "s' = (active_dev \<lparr>peer_connected = True, tx_room = 58,
               wire_tx = [0x52, 4, 0, 0, 0, 2], wire_rx = []\<rparr>)
             \<lparr>trace := [MutexLock, ChrWriteAll [0x52, 4, 0, 0, 0, 2], ChrReadAll 2,
                 ErrorReport ''mmio-sockdev: failed to read response'' [], MutexUnlock]\<rparr>"
    by simp
  have val: "map_sum id fst
              (mmio_sockdev_read stream_backend (s'\<lparr>chr := healthy_peer [0x41]\<rparr>) 0 1)
            = Inr 0x41"
    unfolding s'_eq by (simp add: run_read_after_short)
  have valw: "map_sum id (\<lambda>s''. wire_tx (chr s''))
              (mmio_sockdev_write stream_backend (\<lambda>_. 0) (s'\<lparr>chr := healthy_peer []\<rparr>) 0 0x42 1)
            = Inr [0x57, 0, 0, 0, 0, 1, 0x42]"
    unfolding s'_eq by (simp add: run_write_after_short active_dev_sel)
  have w6: "fst (be_write_all stream_backend (chr (active_dev (healthy_peer [0x11])))
             (read_request_bytes 4 2)) = 6"
    by (simp add: peer_short_exchange)
  have r1: "fst (fst (be_read_all stream_backend
             (snd (be_write_all stream_backend (chr (active_dev (healthy_peer [0x11])))
                (read_request_bytes 4 2))) 2)) \<noteq> 2"
    by (simp add: peer_short_exchange)
  from l w6 r1 fits s' lk er' peer_healthy_exchange ok val peer_healthy_write okw valw
  show ?thesis by blast
qed

subsection \<open>Writes of an invalid size\<close>

text \<open>
  C6. For every offset, every 64-bit value and every size other than 1, 2 and 4, a write
  access on a device whose lock is free returns after reporting the invalid size; the backend
  is not written to (it is not touched at all), and the lock is free again.
\<close>

theorem write_invalid_size:
  assumes "lock s = Unlocked" and "sz \<noteq> 1 \<and> sz \<noteq> 2 \<and> sz \<noteq> 4"
  shows "\<exists>s'. mmio_sockdev_write be rq s offset val sz = Inr s'
           \<and> chr_writes (trace s') = chr_writes (trace s)
           \<and> chr s' = chr s
           \<and> error_reports (trace s') =
               error_reports (trace s) @ [(''mmio-sockdev: invalid write size %u'', [sz])]
           \<and> lock s' = Unlocked"
proof -
  from assms(2) have "sz \<noteq> 1" "sz \<noteq> 2" "sz \<noteq> 4" by simp_all
  from write_invalid_result [OF assms(1) this]
  show ?thesis by (simp add: trace_append)
qed

theorem write_invalid_size_witness:
  "lock (active_dev (healthy_peer [])) = Unlocked
   \<and> ((3 :: u32) \<noteq> 1 \<and> (3 :: u32) \<noteq> 2 \<and> (3 :: u32) \<noteq> 4)
   \<and> (\<exists>s'. mmio_sockdev_write stream_backend (\<lambda>_. 0) (active_dev (healthy_peer [])) 0 0x42 3
              = Inr s'
         \<and> chr_writes (trace s') = []
         \<and> chr s' = healthy_peer []
         \<and> error_reports (trace s') = [(''mmio-sockdev: invalid write size %u'', [3])]
         \<and> lock s' = Unlocked)"
proof -
  have l: "lock (active_dev (healthy_peer [])) = Unlocked"
    by (rule active_dev_sel)
  have v: "(3 :: u32) \<noteq> 1 \<and> (3 :: u32) \<noteq> 2 \<and> (3 :: u32) \<noteq> 4"
    by simp
  note w = write_invalid_size [OF l v, of stream_backend "\<lambda>_. 0" 0 "0x42",
      unfolded active_dev_sel chr_writes.simps error_reports.simps append_Nil]
  from l v w show ?thesis by blast
qed

subsection \<open>Writes never read\<close>

text \<open>
  C7. For every offset, size and value, a write access on a device whose lock is free
  returns without a single read from the backend, whether the size is invalid, the packet
  is sent in full or the send is short: the backend reads recorded in the trace are those
  of before. Against the byte-stream peer the incoming bytes are left as they were.
\<close>

theorem write_never_reads:
  assumes "lock s = Unlocked" and "lock t = Unlocked"
  shows "(\<exists>s'. mmio_sockdev_write be rq s offset val sz = Inr s'
            \<and> chr_reads (trace s') = chr_reads (trace s))
     \<and> (\<exists>t'. mmio_sockdev_write stream_backend rq t offset val sz = Inr t'
            \<and> chr_reads (trace t') = chr_reads (trace t)
            \<and> wire_rx (chr t') = wire_rx (chr t))"
proof -
  from write_result_chr [OF assms(1), of be rq offset val sz]
  have a: "\<exists>s'. mmio_sockdev_write be rq s offset val sz = Inr s'
            \<and> chr_reads (trace s') = chr_reads (trace s)"
    by blast
  from write_result_chr [OF assms(2), of stream_backend rq offset val sz]
  obtain t' where t': "mmio_sockdev_write stream_backend rq t offset val sz = Inr t'"
    and rd: "chr_reads (trace t') = chr_reads (trace t)"
    and c: "chr t' = chr t
          \<or> chr t' = snd (be_write_all stream_backend (chr t) (write_request_bytes offset sz val))"
    by blast
  from c have "wire_rx (chr t') = wire_rx (chr t)"
    by (auto simp: peer_write_all_rx)
  with a t' rd show ?thesis by blast
qed

text \<open>A short send (the connection takes three of the eight bytes) leaves the two incoming bytes.\<close>

theorem write_never_reads_witness:
  "lock (active_dev \<lparr>peer_connected = True, tx_room = 3, wire_tx = [], wire_rx = [0x41, 0x42]\<rparr>)
     = Unlocked
   \<and> (\<exists>t'. mmio_sockdev_write stream_backend (\<lambda>_. 0)
              (active_dev \<lparr>peer_connected = True, tx_room = 3, wire_tx = [], wire_rx = [0x41, 0x42]\<rparr>)
              8 0x1234 2 = Inr t'
         \<and> chr_reads (trace t') = []
         \<and> wire_rx (chr t') = [0x41, 0x42]
         \<and> error_reports (trace t') = [(''mmio-sockdev: failed to send write request'', [])])"
proof -
  have l: "lock (active_dev \<lparr>peer_connected = True, tx_room = 3, wire_tx = [],
      wire_rx = [0x41, 0x42]\<rparr>) = Unlocked"
    by (rule active_dev_sel)
  note w = write_never_reads [OF l l, of stream_backend "\<lambda>_. 0" 8 "0x1234" 2,
      THEN conjunct2, unfolded active_dev_sel chr_reads.simps]
  then obtain t' where t': "mmio_sockdev_write stream_backend (\<lambda>_. 0)
              (active_dev \<lparr>peer_connected = True, tx_room = 3, wire_tx = [], wire_rx = [0x41, 0x42]\<rparr>)
              8 0x1234 2 = Inr t'"
    and rd: "chr_reads (trace t') = []"
    and rx0: "wire_rx (chr t') = wire_rx \<lparr>peer_connected = True, tx_room = 3, wire_tx = [],
        wire_rx = [0x41, 0x42]\<rparr>"
    by (elim exE conjE)
  from rx0 have rx: "wire_rx (chr t') = [0x41, 0x42]"
    by simp
  from t' [unfolded run_write_short]
  have "error_reports (trace t') = [(''mmio-sockdev: failed to send write request'', [])]"
    by auto
  with l t' rd rx show ?thesis by blast
qed

subsection \<open>Activation needs a connected backend\<close>

text \<open>
  C8. When the character backend is not connected, \<open>mmio_sockdev_realize\<close> sets the error
  \<open>mmio-sockdev: chardev not connected\<close> and leaves the device as it was: the lock is not
  initialised, no MMIO region is set up, nothing is handed to the bus or mapped. Conversely,
  when it reports no error the backend was connected.
\<close>

theorem realize_requires_connection:
  "(\<not> be_connected be (chr s) \<longrightarrow>
      mmio_sockdev_realize be s = (Some ''mmio-sockdev: chardev not connected'', s))
   \<and> (fst (mmio_sockdev_realize be s) = None \<longrightarrow> be_connected be (chr s))"
  by (simp add: mmio_sockdev_realize_def Let_def)

theorem realize_requires_connection_witness:
  "\<not> be_connected stream_backend (chr (fresh_dev ((healthy_peer [])\<lparr>peer_connected := False\<rparr>) 0x10020000))
   \<and> fst (mmio_sockdev_realize stream_backend
         (fresh_dev ((healthy_peer [])\<lparr>peer_connected := False\<rparr>) 0x10020000))
       = Some ''mmio-sockdev: chardev not connected''
   \<and> lock (snd (mmio_sockdev_realize stream_backend
         (fresh_dev ((healthy_peer [])\<lparr>peer_connected := False\<rparr>) 0x10020000))) = Uninitialized
   \<and> mmio (snd (mmio_sockdev_realize stream_backend
         (fresh_dev ((healthy_peer [])\<lparr>peer_connected := False\<rparr>) 0x10020000))) = None
   \<and> sysbus_mmio (parent_obj (snd (mmio_sockdev_realize stream_backend
         (fresh_dev ((healthy_peer [])\<lparr>peer_connected := False\<rparr>) 0x10020000)))) = []
   \<and> fst (mmio_sockdev_realize stream_backend (fresh_dev (healthy_peer []) 0x10020000)) = None
   \<and> be_connected stream_backend (chr (fresh_dev (healthy_peer []) 0x10020000))"
proof -
  have n: "\<not> be_connected stream_backend
      (chr (fresh_dev ((healthy_peer [])\<lparr>peer_connected := False\<rparr>) 0x10020000))"
    by (simp add: stream_backend_def fresh_dev_def)
  have y: "fst (mmio_sockdev_realize stream_backend (fresh_dev (healthy_peer []) 0x10020000)) = None"
    by (simp add: mmio_sockdev_realize_def stream_backend_def fresh_dev_def healthy_peer_def Let_def)
  note a = realize_requires_connection [of stream_backend
      "fresh_dev ((healthy_peer [])\<lparr>peer_connected := False\<rparr>) 0x10020000", THEN conjunct1, rule_format, OF n]
  note b = realize_requires_connection [of stream_backend
      "fresh_dev (healthy_peer []) 0x10020000", THEN conjunct2, rule_format, OF y]
  have f: "lock (fresh_dev p a) = Uninitialized" "mmio (fresh_dev p a) = None"
       "sysbus_mmio (parent_obj (fresh_dev p a)) = []" for p a
    by (simp_all add: fresh_dev_def)
  from n y b show ?thesis
    unfolding a fst_conv snd_conv f by blast
qed

subsection \<open>The address is the offset modulo \<open>2 ^ 32\<close>\<close>

text \<open>
  C10. For every 64-bit offset, on a device whose lock is free: the packet that a read
  hands the backend, whenever the read returns (and it returns for every size of at most
  8), is \<open>'R'\<close>, the little-endian encoding in four bytes of the offset reduced modulo
  \<open>2 ^ 32\<close>, and the size; the packet that a write of a size in \<open>{1, 2, 4}\<close> hands the backend
  is \<open>'W'\<close>, the same four address bytes, the size and the data. Two offsets that agree
  modulo \<open>2 ^ 32\<close> give the same read access and the same write access, hence the same
  packets. The address bytes are those that \<open>stl_le_p(req + 1, (uint32_t)offset)\<close> stores at
  \<open>req[1]\<close> to \<open>req[4]\<close> in either handler.
\<close>

theorem address_truncated_to_32_bits:
  "(lock s = Unlocked \<longrightarrow>
      (\<forall>v s'. mmio_sockdev_read be s offset sz = Inr (v, s') \<longrightarrow>
         chr_writes (trace s') =
           chr_writes (trace s)
             @ [[0x52] @ le_bytes 4 (word_of_nat (unat offset mod 2 ^ 32)) @ [ucast sz]])
      \<and> (unat sz \<le> 8 \<longrightarrow> (\<exists>v s'. mmio_sockdev_read be s offset sz = Inr (v, s')))
      \<and> (sz = 1 \<or> sz = 2 \<or> sz = 4 \<longrightarrow>
           (\<exists>s'. mmio_sockdev_write be rq s offset val sz = Inr s'
              \<and> chr_writes (trace s') =
                  chr_writes (trace s)
                    @ [[0x57] @ le_bytes 4 (word_of_nat (unat offset mod 2 ^ 32)) @ [ucast sz]
                         @ le_bytes (unat sz) val])))
   \<and> (\<forall>o2. unat o2 mod 2 ^ 32 = unat offset mod 2 ^ 32 \<longrightarrow>
          mmio_sockdev_read be s o2 sz = mmio_sockdev_read be s offset sz
          \<and> mmio_sockdev_write be rq s o2 val sz = mmio_sockdev_write be rq s offset val sz)
   \<and> map (read_req offset sz) [1..<5] = le_bytes 4 (word_of_nat (unat offset mod 2 ^ 32))
   \<and> map (write_req_header rq offset sz) [1..<5]
        = le_bytes 4 (word_of_nat (unat offset mod 2 ^ 32))"
proof -
  have addr: "le_bytes 4 (word_of_nat (unat offset mod 2 ^ 32)) = le_bytes 4 offset"
    by (simp only: offset_mod_word le_bytes_4_low)
  have rd: "chr_writes (trace s') =
        chr_writes (trace s)
          @ [[0x52] @ le_bytes 4 (word_of_nat (unat offset mod 2 ^ 32)) @ [ucast sz]]"
    if "lock s = Unlocked" and "mmio_sockdev_read be s offset sz = Inr (v, s')" for v s'
    using read_result_writes [OF that] unfolding addr read_request_bytes_def .
  have rt: "\<exists>v s'. mmio_sockdev_read be s offset sz = Inr (v, s')"
    if "lock s = Unlocked" and "unat sz \<le> 8"
    using read_returns [OF that, of be offset] by blast
  have wr: "\<exists>s'. mmio_sockdev_write be rq s offset val sz = Inr s'
              \<and> chr_writes (trace s') =
                  chr_writes (trace s)
                    @ [[0x57] @ le_bytes 4 (word_of_nat (unat offset mod 2 ^ 32)) @ [ucast sz]
                         @ le_bytes (unat sz) val]"
    if l: "lock s = Unlocked" and v: "sz = 1 \<or> sz = 2 \<or> sz = 4"
  proof -
    obtain ret c' where w: "be_write_all be (chr s) (write_request_bytes offset sz val) = (ret, c')"
      by (cases "be_write_all be (chr s) (write_request_bytes offset sz val)")
    have "\<exists>s'. mmio_sockdev_write be rq s offset val sz = Inr s'
           \<and> chr_writes (trace s') = chr_writes (trace s) @ [write_request_bytes offset sz val]"
      by (simp add: write_valid_result [OF l v w] trace_append)
    then show ?thesis
      unfolding addr write_request_bytes_def .
  qed
  have eq: "mmio_sockdev_read be s o2 sz = mmio_sockdev_read be s offset sz
          \<and> mmio_sockdev_write be rq s o2 val sz = mmio_sockdev_write be rq s offset val sz"
    if "unat o2 mod 2 ^ 32 = unat offset mod 2 ^ 32" for o2
  proof -
    from that have e: "(ucast o2 :: u32) = ucast offset"
      by (simp only: offset_mod_ucast)
    have r: "read_req o2 sz = read_req offset sz"
      by (simp add: read_req_def e)
    have h: "write_req_header rq o2 sz = write_req_header rq offset sz"
      by (simp add: write_req_header_def e)
    have "mmio_sockdev_read be s o2 sz = mmio_sockdev_read be s offset sz"
      unfolding mmio_sockdev_read_def r by (rule refl)
    moreover have "mmio_sockdev_write be rq s o2 val sz = mmio_sockdev_write be rq s offset val sz"
      unfolding mmio_sockdev_write_def h by (rule refl)
    ultimately show ?thesis by (rule conjI)
  qed
  have a1: "map (read_req offset sz) [1..<5] = le_bytes 4 (word_of_nat (unat offset mod 2 ^ 32))"
    by (simp only: read_req_addr addr)
  have a2: "map (write_req_header rq offset sz) [1..<5]
        = le_bytes 4 (word_of_nat (unat offset mod 2 ^ 32))"
    by (simp only: write_req_header_addr addr)
  from rd rt wr eq a1 a2 show ?thesis
    by blast
qed

text \<open>
  The offsets \<open>0x100000004\<close> and \<open>4\<close>: the read of size 1 sends \<open>52 04 00 00 00 01\<close>, the
  write of \<open>0x42\<close> sends \<open>57 04 00 00 00 01 42\<close>, and the accesses at the two offsets are the
  same.
\<close>

theorem address_truncated_to_32_bits_witness:
  "lock (active_dev (healthy_peer [0x41])) = Unlocked
   \<and> unat (1 :: u32) \<le> 8
   \<and> ((1 :: u32) = 1 \<or> (1 :: u32) = 2 \<or> (1 :: u32) = 4)
   \<and> unat (4 :: u64) mod 2 ^ 32 = unat (0x100000004 :: u64) mod 2 ^ 32
   \<and> (\<exists>v s'. mmio_sockdev_read stream_backend (active_dev (healthy_peer [0x41])) 0x100000004 1
                = Inr (v, s')
          \<and> chr_writes (trace s') = [[0x52, 4, 0, 0, 0, 1]])
   \<and> (\<exists>s'. mmio_sockdev_write stream_backend (\<lambda>_. 0) (active_dev (healthy_peer [0x41]))
                0x100000004 0x42 1 = Inr s'
          \<and> chr_writes (trace s') = [[0x57, 4, 0, 0, 0, 1, 0x42]])
   \<and> mmio_sockdev_read stream_backend (active_dev (healthy_peer [0x41])) 4 1
       = mmio_sockdev_read stream_backend (active_dev (healthy_peer [0x41])) 0x100000004 1
   \<and> mmio_sockdev_write stream_backend (\<lambda>_. 0) (active_dev (healthy_peer [0x41])) 4 0x42 1
       = mmio_sockdev_write stream_backend (\<lambda>_. 0) (active_dev (healthy_peer [0x41]))
           0x100000004 0x42 1
   \<and> map (read_req 0x100000004 1) [1..<5] = [4, 0, 0, 0]
   \<and> map (write_req_header (\<lambda>_. 0) 0x100000004 1) [1..<5] = [4, 0, 0, 0]"
proof -
  have l: "lock (active_dev (healthy_peer [0x41])) = Unlocked"
    by (rule active_dev_sel)
  have sm: "unat (1 :: u32) \<le> 8"
    by simp
  have v: "(1 :: u32) = 1 \<or> (1 :: u32) = 2 \<or> (1 :: u32) = 4"
    by simp
  have h: "unat (4 :: u64) mod 2 ^ 32 = unat (0x100000004 :: u64) mod 2 ^ 32"
    by simp
  have b: "le_bytes 4 (word_of_nat (unat (0x100000004 :: u64) mod 2 ^ 32)) = [4, 0, 0, 0]"
    by (simp add: le_bytes_def upt_rec)
  have d: "le_bytes (unat (1 :: u32)) 0x42 = [0x42]"
    by (simp add: le_bytes_def)
  have u: "(ucast (1 :: u32) :: u8) = 1"
    by simp
  note t = address_truncated_to_32_bits [of "active_dev (healthy_peer [0x41])" stream_backend
      "0x100000004" 1 "\<lambda>_. 0" "0x42",
      unfolded b d u active_dev_sel chr_writes.simps append_Nil append_Cons]
  from t l have t1: "\<forall>v s'. mmio_sockdev_read stream_backend (active_dev (healthy_peer [0x41]))
        0x100000004 1 = Inr (v, s') \<longrightarrow> chr_writes (trace s') = [[0x52, 4, 0, 0, 0, 1]]"
    and t2: "unat (1 :: u32) \<le> 8 \<longrightarrow>
       (\<exists>v s'. mmio_sockdev_read stream_backend (active_dev (healthy_peer [0x41])) 0x100000004 1
                = Inr (v, s'))"
    and t3: "(1 :: u32) = 1 \<or> (1 :: u32) = 2 \<or> (1 :: u32) = 4 \<longrightarrow>
       (\<exists>s'. mmio_sockdev_write stream_backend (\<lambda>_. 0) (active_dev (healthy_peer [0x41]))
                0x100000004 0x42 1 = Inr s'
          \<and> chr_writes (trace s') = [[0x57, 4, 0, 0, 0, 1, 0x42]])"
    by blast+
  from t have t4: "\<forall>o2. unat o2 mod 2 ^ 32 = unat (0x100000004 :: u64) mod 2 ^ 32 \<longrightarrow>
          mmio_sockdev_read stream_backend (active_dev (healthy_peer [0x41])) o2 1
            = mmio_sockdev_read stream_backend (active_dev (healthy_peer [0x41])) 0x100000004 1
          \<and> mmio_sockdev_write stream_backend (\<lambda>_. 0) (active_dev (healthy_peer [0x41])) o2 0x42 1
            = mmio_sockdev_write stream_backend (\<lambda>_. 0) (active_dev (healthy_peer [0x41]))
                0x100000004 0x42 1"
    and t5: "map (read_req 0x100000004 1) [1..<5] = [4, 0, 0, 0]"
    and t6: "map (write_req_header (\<lambda>_. 0) 0x100000004 1) [1..<5] = [4, 0, 0, 0]"
    by blast+
  from t2 sm obtain v' s' where
    r: "mmio_sockdev_read stream_backend (active_dev (healthy_peer [0x41])) 0x100000004 1
          = Inr (v', s')"
    by blast
  from t1 r have rw: "chr_writes (trace s') = [[0x52, 4, 0, 0, 0, 1]]"
    by blast
  note e = t4 [rule_format, OF h]
  from l sm v h r rw t3 e t5 t6 show ?thesis
    by blast
qed

end
